theory Spec2Isabelle
  imports Main
begin

section \<open>Values, errors and completions\<close>

text \<open>
  The model follows \<^verbatim>\<open>src/room-client.ts\<close>. A JavaScript function either returns a value
  or throws; either way the fields of the controller it has written so far stay written. Every
  operation of the model therefore returns a completion together with the controller state
  reached when it returned or threw.
\<close>

datatype error =
    Invariant string
  | Error string
  | Thrown string

datatype 'a completion = Returns 'a | Throws error

fun throws :: "'a completion \<Rightarrow> bool" where
  "throws (Throws e) = True"
| "throws (Returns v) = False"

text \<open>A failed call of \<^verbatim>\<open>invariant(condition, message)\<close>.\<close>

fun violates_invariant :: "'a completion \<Rightarrow> bool" where
  "violates_invariant (Throws (Invariant message)) = True"
| "violates_invariant (Throws (Error message)) = False"
| "violates_invariant (Throws (Thrown message)) = False"
| "violates_invariant (Returns v) = False"

text \<open>
  \<^verbatim>\<open>!x\<close> on a field of type \<^verbatim>\<open>string | undefined\<close>: \<^verbatim>\<open>undefined\<close> and the empty string
  are falsy, every other string is truthy. Documents, sockets and functions are objects; for
  them \<^verbatim>\<open>!x\<close> holds exactly when the field is \<^verbatim>\<open>undefined\<close>.
\<close>

definition truthy :: "string option \<Rightarrow> bool" where
  "truthy v = (case v of None \<Rightarrow> False | Some s \<Rightarrow> s \<noteq> [])"

datatype log_entry = Warn error | Err error

section \<open>Collaborators\<close>

text \<open>The interface \<^verbatim>\<open>RoomPacket\<close>; \<^verbatim>\<open>!payload.msg\<close> is the case \<open>None\<close>.\<close>

record 'msg room_packet =
  meta_roomId :: string
  payload_msg :: "'msg option"

text \<open>What \<^verbatim>\<open>authorize\<close> resolves to: \<^verbatim>\<open>{room: {id, state}, session: {token}}\<close>.\<close>

record auth_params =
  room_id :: string
  room_state :: string
  session_token :: string

text \<open>
  The listeners of a socket. \<open>Log_socket_error\<close>, \<open>Notify_and_sync\<close> and
  \<open>Warn_forced_disconnect\<close> are the three closures \<^verbatim>\<open>init\<close> always attaches;
  \<open>Socket_callback cb\<close> is the closure \<^verbatim>\<open>socketCallback\<close> that \<^verbatim>\<open>onUpdateDoc\<close> builds
  around the user's callback \<open>cb\<close>; \<open>User_callback cb\<close> is a connect or disconnect callback
  of the user.
\<close>

datatype 'cb handler =
    Log_socket_error
  | Notify_and_sync
  | Warn_forced_disconnect
  | Socket_callback 'cb
  | User_callback 'cb

record 'cb socket_io =
  socket_url :: string
  authorization :: string
  listeners :: "(string \<times> 'cb handler) list"

definition sockets_newSocket :: "string \<Rightarrow> string \<Rightarrow> 'cb socket_io" where
  "sockets_newSocket url auth = \<lparr>socket_url = url, authorization = auth, listeners = []\<rparr>"

definition sockets_on :: "'cb socket_io \<Rightarrow> string \<Rightarrow> 'cb handler \<Rightarrow> 'cb socket_io" where
  "sockets_on s ev h = s\<lparr>listeners := listeners s @ [(ev, h)]\<rparr>"

text \<open>
  Modelled from the spec: \<^verbatim>\<open>./offline\<close> (the Identity Store) is not among the sources.
  The spec gives it three operations, none of which fails: get-or-create of one stable
  actor identifier, created once and then kept; \<^verbatim>\<open>getDoc(reference, name)\<close> returning
  the stored bytes or nothing; \<^verbatim>\<open>setDoc(reference, name, bytes)\<close>. The field \<open>writes\<close>
  lists the calls of \<^verbatim>\<open>setDoc\<close> in order, so that writes can be counted.
\<close>

record offline_store =
  stored_actor :: "string option"
  stored_docs :: "string \<times> string \<Rightarrow> string option"
  writes :: "(string \<times> string \<times> string) list"

definition offline_getOrCreateActor :: "string \<Rightarrow> offline_store \<Rightarrow> string \<times> offline_store" where
  "offline_getOrCreateActor fresh s =
     (case stored_actor s of
        Some a \<Rightarrow> (a, s)
      | None \<Rightarrow> (fresh, s\<lparr>stored_actor := Some fresh\<rparr>))"

definition offline_getDoc :: "offline_store \<Rightarrow> string \<Rightarrow> string \<Rightarrow> string option" where
  "offline_getDoc s ref name = stored_docs s (ref, name)"

definition offline_setDoc :: "string \<Rightarrow> string \<Rightarrow> string \<Rightarrow> offline_store \<Rightarrow> offline_store" where
  "offline_setDoc ref name bytes s =
     s\<lparr>stored_docs := (stored_docs s)((ref, name) \<mapsto> bytes),
       writes := writes s @ [(ref, name, bytes)]\<rparr>"

text \<open>
  The calls the controller makes on its \<^verbatim>\<open>Peer\<close> (the Sync Relay), in order. What the
  relay does inside a call, and when it hands outbound messages to the controller's send
  function, is the relay's business; the controller's part is which calls it makes, with
  which documents.
\<close>

datatype ('doc, 'msg) relay_call = Notify 'doc | ApplyMessage 'msg "'doc option"

text \<open>
  The libraries and modules the controller imports, as parameters: Automerge (\<^verbatim>\<open>from\<close>,
  \<^verbatim>\<open>load\<close>, \<^verbatim>\<open>save\<close>, \<^verbatim>\<open>merge\<close>, \<^verbatim>\<open>change\<close>), \<^verbatim>\<open>Peer.applyMessage\<close>,
  immutable's \<^verbatim>\<open>Map\<close> applied to the clock of a message, \<^verbatim>\<open>JSON.parse\<close> on a packet,
  \<^verbatim>\<open>authorize\<close>, the identifier the Identity Store generates when it has none, and
  the constant \<^verbatim>\<open>ROOM_SERICE_SOCKET_URL\<close>. An argument that the source reads from
  \<^verbatim>\<open>this._doc\<close> may be \<^verbatim>\<open>undefined\<close> and is passed as an option. \<^verbatim>\<open>load\<close> and
  \<^verbatim>\<open>merge\<close> may throw; \<^verbatim>\<open>change\<close> and \<^verbatim>\<open>applyMessage\<close> may return \<^verbatim>\<open>undefined\<close>.
  The answer of \<^verbatim>\<open>applyMessage\<close> may depend on the calls the relay has seen before.
\<close>

record ('doc, 'st, 'msg, 'mut) env =
  automerge_from :: "'st \<Rightarrow> string \<Rightarrow> 'doc"
  empty_state :: 'st
  automerge_load :: "string \<Rightarrow> string option \<Rightarrow> error + 'doc"
  automerge_save :: "'doc \<Rightarrow> string"
  automerge_merge :: "'doc option \<Rightarrow> 'doc \<Rightarrow> error + 'doc"
  automerge_change :: "'doc option \<Rightarrow> 'mut \<Rightarrow> 'doc option"
  peer_applyMessage :: "('doc, 'msg) relay_call list \<Rightarrow> 'msg \<Rightarrow> 'doc option \<Rightarrow> 'doc option"
  immutable_Map :: "'msg \<Rightarrow> 'msg"
  json_parse :: "string \<Rightarrow> error + 'msg room_packet"
  authorize :: "string \<Rightarrow> string \<Rightarrow> error + auth_params"
  new_actor :: string
  room_service_socket_url :: string

section \<open>The controller\<close>

text \<open>
  The fields of \<^verbatim>\<open>RoomClient\<close> (without the leading underscore), followed by the part
  of the world the controller acts on: the Identity Store, the time in milliseconds, the
  pending call of the debounced save, the console, and the calls made to the user's update
  callback.
\<close>

record ('doc, 'msg, 'cb) room_client =
  peer :: "('doc, 'msg) relay_call list"
  reference :: string
  authorizationUrl :: string
  socket :: "'cb socket_io option"
  roomId :: "string option"
  doc :: "'doc option"
  actorId :: "string option"
  socketURL :: string
  onUpdateSocketCallback :: "'cb option"
  onConnectSocketCallback :: "'cb option"
  onDisconnectSocketCallback :: "'cb option"
  offline :: offline_store
  clock :: nat
  save_timer :: "(nat \<times> string \<times> 'doc) option"
  console :: "log_entry list"
  delivered :: "('cb \<times> 'doc) list"

text \<open>
  The synchronous part of the constructor. Its asynchronous part is the call
  \<open>readActorIdThenCreateDoc env state\<close> below, which completes later.
\<close>

definition new_RoomClient ::
  "('doc, 'st, 'msg, 'mut) env \<Rightarrow> string \<Rightarrow> string \<Rightarrow> offline_store \<Rightarrow> nat \<Rightarrow> ('doc, 'msg, 'cb) room_client" where
  "new_RoomClient env authUrl ref store now =
     \<lparr>peer = [], reference = ref, authorizationUrl = authUrl, socket = None, roomId = None,
      doc = None, actorId = None, socketURL = room_service_socket_url env,
      onUpdateSocketCallback = None, onConnectSocketCallback = None,
      onDisconnectSocketCallback = None, offline = store, clock = now, save_timer = None,
      console = [], delivered = []\<rparr>"

definition peer_notify :: "'doc \<Rightarrow> ('doc, 'msg, 'cb) room_client \<Rightarrow> ('doc, 'msg, 'cb) room_client" where
  "peer_notify d c = c\<lparr>peer := peer c @ [Notify d]\<rparr>"

definition createDoc ::
  "('doc, 'st, 'msg, 'mut) env \<Rightarrow> string \<Rightarrow> 'st option \<Rightarrow> ('doc, 'msg, 'cb) room_client
     \<Rightarrow> 'doc \<times> ('doc, 'msg, 'cb) room_client" where
  "createDoc env actor state c =
     (case doc c of
        Some d \<Rightarrow> (d, c)
      | None \<Rightarrow>
          (let defaultDoc = automerge_from env (case state of Some s \<Rightarrow> s | None \<Rightarrow> empty_state env) actor
           in (defaultDoc, peer_notify defaultDoc (c\<lparr>doc := Some defaultDoc\<rparr>))))"

definition readActorIdThenCreateDoc ::
  "('doc, 'st, 'msg, 'mut) env \<Rightarrow> 'st option \<Rightarrow> ('doc, 'msg, 'cb) room_client
     \<Rightarrow> 'doc \<times> ('doc, 'msg, 'cb) room_client" where
  "readActorIdThenCreateDoc env state c =
     (let (actor, store) = offline_getOrCreateActor (new_actor env) (offline c)
      in createDoc env actor state (c\<lparr>offline := store, actorId := Some actor\<rparr>))"

text \<open>The step \<^verbatim>\<open>if (!this._doc) { await this.readActorIdThenCreateDoc(); }\<close>.\<close>

definition ensureDoc ::
  "('doc, 'st, 'msg, 'mut) env \<Rightarrow> ('doc, 'msg, 'cb) room_client \<Rightarrow> ('doc, 'msg, 'cb) room_client" where
  "ensureDoc env c = (if doc c = None then snd (readActorIdThenCreateDoc env None c) else c)"

definition syncOfflineCache ::
  "('doc, 'st, 'msg, 'mut) env \<Rightarrow> ('doc, 'msg, 'cb) room_client
     \<Rightarrow> 'doc option completion \<times> ('doc, 'msg, 'cb) room_client" where
  "syncOfflineCache env c =
     (case offline_getDoc (offline c) (reference c) ''default'' of
        None \<Rightarrow> (Returns (doc c), c)
      | Some data \<Rightarrow>
          if data = [] then (Returns (doc c), c)
          else
            (let (actor, store) = offline_getOrCreateActor (new_actor env) (offline c);
                 c1 = c\<lparr>offline := store\<rparr>
             in case automerge_load env data (Some actor) of
                  Inl e \<Rightarrow> (Throws e, c1)
                | Inr offlineDoc \<Rightarrow>
                    (Returns (Some offlineDoc), peer_notify offlineDoc (c1\<lparr>doc := Some offlineDoc\<rparr>))))"

definition restore ::
  "('doc, 'st, 'msg, 'mut) env \<Rightarrow> ('doc, 'msg, 'cb) room_client
     \<Rightarrow> 'doc option completion \<times> ('doc, 'msg, 'cb) room_client" where
  "restore env c = syncOfflineCache env (ensureDoc env c)"

text \<open>
  What \<^verbatim>\<open>init\<close> resolves to in its field \<^verbatim>\<open>doc\<close>: the value of a document variable,
  or the plain object \<^verbatim>\<open>{}\<close> of the last \<^verbatim>\<open>catch\<close>, which is not an Automerge document.
\<close>

datatype 'doc init_doc = Doc_value "'doc option" | Empty_object

text \<open>
  Lines 124 to 170 of \<^verbatim>\<open>init\<close>: record the room, open the socket with the bearer
  token, attach the three handlers and then the pending callbacks.
\<close>

definition openSession ::
  "auth_params \<Rightarrow> ('doc, 'msg, 'cb) room_client \<Rightarrow> ('doc, 'msg, 'cb) room_client" where
  "openSession params c =
     (let s0 = sockets_newSocket (socketURL c) (''Bearer '' @ session_token params);
          s1 = sockets_on s0 ''error'' Log_socket_error;
          s2 = sockets_on s1 ''connect'' Notify_and_sync;
          s3 = sockets_on s2 ''disconnect'' Warn_forced_disconnect;
          s4 = (case onUpdateSocketCallback c of
                  Some cb \<Rightarrow> sockets_on s3 ''sync_room_state'' (Socket_callback cb)
                | None \<Rightarrow> s3);
          s5 = (case onConnectSocketCallback c of
                  Some cb \<Rightarrow> sockets_on s4 ''connect'' (User_callback cb)
                | None \<Rightarrow> s4);
          s6 = (case onDisconnectSocketCallback c of
                  Some cb \<Rightarrow> sockets_on s5 ''disconnect'' (User_callback cb)
                | None \<Rightarrow> s5)
      in c\<lparr>roomId := Some (room_id params), socket := Some s6\<rparr>)"

definition console_warn :: "error \<Rightarrow> ('doc, 'msg, 'cb) room_client \<Rightarrow> ('doc, 'msg, 'cb) room_client" where
  "console_warn e c = c\<lparr>console := console c @ [Warn e]\<rparr>"

definition console_error :: "error \<Rightarrow> ('doc, 'msg, 'cb) room_client \<Rightarrow> ('doc, 'msg, 'cb) room_client" where
  "console_error e c = c\<lparr>console := console c @ [Err e]\<rparr>"

text \<open>Lines 172 to 189 of \<^verbatim>\<open>init\<close>: the merge of the server's state with the local one.\<close>

definition mergeOnline ::
  "('doc, 'st, 'msg, 'mut) env \<Rightarrow> auth_params \<Rightarrow> ('doc, 'msg, 'cb) room_client
     \<Rightarrow> 'doc init_doc completion \<times> ('doc, 'msg, 'cb) room_client" where
  "mergeOnline env params c =
     (case automerge_load env (room_state params) None of
        Inl e \<Rightarrow> (Returns Empty_object, console_error e c)
      | Inr state \<Rightarrow>
          (case syncOfflineCache env c of
             (Throws e, c1) \<Rightarrow> (Returns Empty_object, console_error e c1)
           | (Returns local, c1) \<Rightarrow>
               (case automerge_merge env local state of
                  Inl e \<Rightarrow> (Returns Empty_object, console_error e c1)
                | Inr merged \<Rightarrow>
                    (Returns (Doc_value (Some merged)),
                     peer_notify merged (c1\<lparr>doc := Some merged\<rparr>)))))"

definition init ::
  "('doc, 'st, 'msg, 'mut) env \<Rightarrow> ('doc, 'msg, 'cb) room_client
     \<Rightarrow> 'doc init_doc completion \<times> ('doc, 'msg, 'cb) room_client" where
  "init env c =
     (let c1 = ensureDoc env c
      in case authorize env (authorizationUrl c1) (reference c1) of
           Inl err \<Rightarrow>
             (case syncOfflineCache env (console_warn err c1) of
                (Throws e, c2) \<Rightarrow> (Throws e, c2)
              | (Returns local, c2) \<Rightarrow> (Returns (Doc_value (doc c2)), c2))
         | Inr params \<Rightarrow> mergeOnline env params (openSession params c1))"

section \<open>Debounced persistence\<close>

text \<open>The function \<^verbatim>\<open>saveOffline\<close> of the constructor, before it is debounced.\<close>

definition saveOffline_now ::
  "('doc, 'st, 'msg, 'mut) env \<Rightarrow> string \<Rightarrow> 'doc \<Rightarrow> ('doc, 'msg, 'cb) room_client
     \<Rightarrow> ('doc, 'msg, 'cb) room_client" where
  "saveOffline_now env docId d c =
     c\<lparr>offline := offline_setDoc (reference c) docId (automerge_save env d) (offline c)\<rparr>"

text \<open>
  Modelled from the spec: lodash's \<^verbatim>\<open>debounce\<close> is not among the sources. The field
  \<^verbatim>\<open>_saveOffline\<close> is \<^verbatim>\<open>debounce(saveOffline, 120)\<close>: a call only records its arguments
  in the one pending slot and restarts the timer, and \<^verbatim>\<open>saveOffline\<close> runs once, with the
  arguments of the latest call, when 120 ms have passed without another call. \<open>elapse\<close> lets
  time pass and runs the timer when it is due.
\<close>

definition saveOffline ::
  "string \<Rightarrow> 'doc \<Rightarrow> ('doc, 'msg, 'cb) room_client \<Rightarrow> ('doc, 'msg, 'cb) room_client" where
  "saveOffline docId d c = c\<lparr>save_timer := Some (clock c + 120, docId, d)\<rparr>"

definition elapse ::
  "('doc, 'st, 'msg, 'mut) env \<Rightarrow> nat \<Rightarrow> ('doc, 'msg, 'cb) room_client
     \<Rightarrow> ('doc, 'msg, 'cb) room_client" where
  "elapse env ms c =
     (let now = clock c + ms
      in case save_timer c of
           None \<Rightarrow> c\<lparr>clock := now\<rparr>
         | Some (due, docId, d) \<Rightarrow>
             if due \<le> now then (saveOffline_now env docId d c)\<lparr>save_timer := None, clock := now\<rparr>
             else c\<lparr>clock := now\<rparr>)"

section \<open>The update callback\<close>

text \<open>
  The closure \<^verbatim>\<open>socketCallback\<close> built by \<^verbatim>\<open>onUpdateDoc\<close> around \<open>callback\<close>. It returns
  nothing; \<open>Ignored\<close> and \<open>Applied\<close> tell the \<^verbatim>\<open>return\<close> for another room's packet from
  the end of the function.
\<close>

datatype handled = Ignored | Applied

definition socketCallback ::
  "('doc, 'st, 'msg, 'mut) env \<Rightarrow> 'cb \<Rightarrow> string \<Rightarrow> ('doc, 'msg, 'cb) room_client
     \<Rightarrow> handled completion \<times> ('doc, 'msg, 'cb) room_client" where
  "socketCallback env callback data c =
     (case json_parse env data of
        Inl e \<Rightarrow> (Throws e, c)
      | Inr packet \<Rightarrow>
          if \<not> truthy (roomId c) then
            (Throws (Error ''Expected a _roomId to be defined before we invoked the the onUpdate callback. This is a sign of a broken client, please contact us if you're seeing this.''), c)
          else if Some (meta_roomId packet) \<noteq> roomId c then (Returns Ignored, c)
          else
            (case payload_msg packet of
               None \<Rightarrow>
                 (Throws (Error ''The room's state object does not include an 'msg' attribute, which could signal a corrupted room. If you're seeing this in production, that's quite bad and represents a fixable bug within the SDK itself. Please let us know and we'll fix it immediately!''), c)
             | Some m \<Rightarrow>
                 (let c1 = ensureDoc env c;
                      msg = immutable_Map env m;
                      newDoc = peer_applyMessage env (peer c1) msg (doc c1);
                      c2 = c1\<lparr>peer := peer c1 @ [ApplyMessage msg (doc c1)]\<rparr>
                  in case newDoc of
                       None \<Rightarrow>
                         (Throws (Error (''Response from RoomService API seems corrupted, aborting. Response: '' @ data)), c2)
                     | Some nd \<Rightarrow>
                         (let c3 = saveOffline ''default'' nd (c2\<lparr>doc := Some nd\<rparr>)
                          in (Returns Applied, c3\<lparr>delivered := delivered c3 @ [(callback, nd)]\<rparr>)))))"

definition onUpdateDoc ::
  "'cb \<Rightarrow> ('doc, 'msg, 'cb) room_client \<Rightarrow> unit completion \<times> ('doc, 'msg, 'cb) room_client" where
  "onUpdateDoc callback c =
     (if onUpdateSocketCallback c \<noteq> None then
        (Throws (Invariant ''It looks like you've called onUpdate multiple times. Since this can cause quite severe performance issues if used incorrectly, we're not currently supporting this behavior. If you've got a use-case we haven't thought of, file a github issue and we may change this.''), c)
      else
        (case socket c of
           None \<Rightarrow> (Returns (), c\<lparr>onUpdateSocketCallback := Some callback\<rparr>)
         | Some s \<Rightarrow>
             (Returns (), c\<lparr>socket := Some (sockets_on s ''sync_room_state'' (Socket_callback callback))\<rparr>)))"

section \<open>Publishing\<close>

definition publishDoc ::
  "('doc, 'st, 'msg, 'mut) env \<Rightarrow> 'mut \<Rightarrow> ('doc, 'msg, 'cb) room_client
     \<Rightarrow> 'doc completion \<times> ('doc, 'msg, 'cb) room_client" where
  "publishDoc env callback c =
     (let adopt = (\<lambda>newDoc c1.
            (Returns newDoc, peer_notify newDoc (saveOffline ''default'' newDoc (c1\<lparr>doc := Some newDoc\<rparr>))));
          noActor = (Throws (Invariant ''The client is trying to regenerate a deleted document, but isn't able to access the cached actor id. This is probably a bug in the client, if you see this, we're incredibly sorry! Please let us know. In the meantime, you may be able work around this by ensuring 'await room.restore()' has finished before calling 'publishState'.''), c)
      in case automerge_change env (doc c) callback of
           Some newDoc \<Rightarrow> adopt newDoc c
         | None \<Rightarrow>
             (case actorId c of
                None \<Rightarrow> noActor
              | Some actor \<Rightarrow>
                  if actor = [] then noActor
                  else
                    (let (newDoc, c1) = createDoc env actor None c
                     in adopt newDoc c1)))"

section \<open>Runs of document replacements\<close>

text \<open>
  The two places that schedule a save: a local publish (\<^verbatim>\<open>publishDoc\<close>) and an applied
  remote message (the update handler). \<open>replaceDoc\<close> is \<open>None\<close> when the operation throws
  or ignores the packet, that is when it replaces no document. \<open>replacements\<close> performs
  a list of them, each after its own wait in milliseconds.
\<close>

datatype ('mut, 'cb) replacement = Local 'mut | Remote 'cb string

definition replaceDoc ::
  "('doc, 'st, 'msg, 'mut) env \<Rightarrow> ('mut, 'cb) replacement \<Rightarrow> ('doc, 'msg, 'cb) room_client
     \<Rightarrow> ('doc, 'msg, 'cb) room_client option" where
  "replaceDoc env r c =
     (case r of
        Local callback \<Rightarrow>
          (case publishDoc env callback c of
             (Returns d, c') \<Rightarrow> Some c'
           | (Throws e, c') \<Rightarrow> None)
      | Remote callback data \<Rightarrow>
          (case socketCallback env callback data c of
             (Returns Applied, c') \<Rightarrow> Some c'
           | (Returns Ignored, c') \<Rightarrow> None
           | (Throws e, c') \<Rightarrow> None))"

fun replacements ::
  "('doc, 'st, 'msg, 'mut) env \<Rightarrow> (nat \<times> ('mut, 'cb) replacement) list
     \<Rightarrow> ('doc, 'msg, 'cb) room_client \<Rightarrow> ('doc, 'msg, 'cb) room_client option" where
  "replacements env [] c = Some c"
| "replacements env ((wait, r) # rs) c =
     (case replaceDoc env r (elapse env wait c) of
        None \<Rightarrow> None
      | Some c' \<Rightarrow> replacements env rs c')"

text \<open>A controller that has recorded a room holds a document.\<close>

definition joined_has_doc :: "('doc, 'msg, 'cb) room_client \<Rightarrow> bool" where
  "joined_has_doc c = (roomId c \<noteq> None \<longrightarrow> doc c \<noteq> None)"

section \<open>A small instance\<close>

text \<open>
  Concrete collaborators, for running the model: a document is the actor it was made for and
  a counter; a snapshot is as many characters as the counter says, and the snapshot
  \<^verbatim>\<open>corrupt\<close> does not load; merging keeps the larger counter under the actor of the
  local document; a mutation sets the counter; a message carries a counter and the relay
  rejects the message \<open>0\<close>; a packet is written \<^verbatim>\<open>room#xxx\<close>, the room before the sign
  and the message the number of characters after it, and has no message without the sign;
  the authorization endpoint \<^verbatim>\<open>down\<close> fails.
\<close>

definition demo_env :: "(string \<times> nat, nat, nat, nat) env" where
  "demo_env =
     \<lparr>automerge_from = (\<lambda>st actor. (actor, st)),
      empty_state = 0,
      automerge_load = (\<lambda>bytes actor.
         if bytes = ''corrupt'' then Inl (Thrown ''load'')
         else Inr (case actor of Some a \<Rightarrow> a | None \<Rightarrow> ''server'', length bytes)),
      automerge_save = (\<lambda>d. replicate (snd d) (CHR ''x'')),
      automerge_merge = (\<lambda>local server.
         case local of
           None \<Rightarrow> Inl (Thrown ''merge'')
         | Some d \<Rightarrow> Inr (fst d, max (snd d) (snd server))),
      automerge_change = (\<lambda>d n. case d of None \<Rightarrow> None | Some x \<Rightarrow> Some (fst x, n)),
      peer_applyMessage = (\<lambda>calls m d.
         case d of None \<Rightarrow> None | Some x \<Rightarrow> if m = 0 then None else Some (fst x, m)),
      immutable_Map = (\<lambda>m. m),
      json_parse = (\<lambda>data.
         if data = ''not json'' then Inl (Thrown ''SyntaxError'')
         else Inr \<lparr>meta_roomId = takeWhile (\<lambda>ch. ch \<noteq> CHR ''#'') data,
                   payload_msg = (case dropWhile (\<lambda>ch. ch \<noteq> CHR ''#'') data of
                                    [] \<Rightarrow> None
                                  | _ # rest \<Rightarrow> Some (length rest))\<rparr>),
      authorize = (\<lambda>url ref.
         if url = ''down'' then Inl (Thrown ''network'')
         else Inr \<lparr>room_id = ''r1'', room_state = (if ref = ''room2'' then ''corrupt'' else []),
                   session_token = ''t''\<rparr>),
      new_actor = ''a1'',
      room_service_socket_url = ''wss://socket''\<rparr>"

definition empty_store :: offline_store where
  "empty_store = \<lparr>stored_actor = None, stored_docs = (\<lambda>k. None), writes = []\<rparr>"

text \<open>
  A controller constructed with \<^verbatim>\<open>{authUrl, reference, state: 5}\<close> over a store that
  holds \<open>docs\<close>, once the asynchronous part of its constructor has completed.
\<close>

definition demo_client ::
  "string \<Rightarrow> string \<Rightarrow> (string \<times> string \<Rightarrow> string option) \<Rightarrow> (string \<times> nat, nat, nat) room_client" where
  "demo_client authUrl ref docs =
     snd (readActorIdThenCreateDoc demo_env (Some 5)
            (new_RoomClient demo_env authUrl ref (empty_store\<lparr>stored_docs := docs\<rparr>) 0))"

text \<open>
  The controllers used below: before the asynchronous part of the constructor has run;
  constructed over an empty store; over a store with a snapshot of counter 7; in a room whose
  server state does not load; with the authorization endpoint down, over a good and over a
  corrupt snapshot; online, after \<^verbatim>\<open>init\<close>; and with its document handle removed.
\<close>

definition blank_client :: "(string \<times> nat, nat, nat) room_client" where
  "blank_client = new_RoomClient demo_env ''https://auth'' ''room1'' empty_store 0"

definition fresh_client :: "(string \<times> nat, nat, nat) room_client" where
  "fresh_client = demo_client ''https://auth'' ''room1'' Map.empty"

definition cached_client :: "(string \<times> nat, nat, nat) room_client" where
  "cached_client = demo_client ''https://auth'' ''room1'' [(''room1'', ''default'') \<mapsto> ''xxxxxxx'']"

definition corrupt_room_client :: "(string \<times> nat, nat, nat) room_client" where
  "corrupt_room_client = demo_client ''https://auth'' ''room2'' Map.empty"

definition offline_cached_client :: "(string \<times> nat, nat, nat) room_client" where
  "offline_cached_client = demo_client ''down'' ''room1'' [(''room1'', ''default'') \<mapsto> ''xxxxxxx'']"

definition corrupt_cache_client :: "(string \<times> nat, nat, nat) room_client" where
  "corrupt_cache_client = demo_client ''down'' ''room1'' [(''room1'', ''default'') \<mapsto> ''corrupt'']"

definition online_client :: "(string \<times> nat, nat, nat) room_client" where
  "online_client = snd (init demo_env fresh_client)"

definition deleted_doc_client :: "(string \<times> nat, nat, nat) room_client" where
  "deleted_doc_client = fresh_client\<lparr>doc := None\<rparr>"

text \<open>Collaborators whose merge always throws, and whose change always returns the sentinel.\<close>

definition failing_merge_env :: "(string \<times> nat, nat, nat, nat) env" where
  "failing_merge_env = demo_env\<lparr>automerge_merge := (\<lambda>local server. Inl (Thrown ''merge''))\<rparr>"

definition stale_env :: "(string \<times> nat, nat, nat, nat) env" where
  "stale_env = demo_env\<lparr>automerge_change := (\<lambda>d n. None)\<rparr>"

text \<open>Two more replacements, 50 ms and 100 ms after the one before.\<close>

definition demo_burst :: "(nat \<times> (nat, nat) replacement) list" where
  "demo_burst = [(50, Remote 7 ''r1#xx''), (100, Local 9)]"

section \<open>Basic facts\<close>

lemmas controller_defs =
  truthy_def sockets_newSocket_def sockets_on_def offline_getOrCreateActor_def
  offline_getDoc_def offline_setDoc_def new_RoomClient_def peer_notify_def createDoc_def
  readActorIdThenCreateDoc_def ensureDoc_def syncOfflineCache_def restore_def openSession_def
  console_warn_def console_error_def mergeOnline_def init_def saveOffline_now_def
  saveOffline_def elapse_def socketCallback_def onUpdateDoc_def publishDoc_def replaceDoc_def

lemmas demo_defs =
  Let_def demo_env_def empty_store_def demo_client_def blank_client_def fresh_client_def
  cached_client_def corrupt_room_client_def offline_cached_client_def corrupt_cache_client_def
  online_client_def deleted_doc_client_def failing_merge_env_def stale_env_def demo_burst_def

lemma doc_ensureDoc: "doc (ensureDoc env c) \<noteq> None"
  by (simp add: ensureDoc_def readActorIdThenCreateDoc_def createDoc_def peer_notify_def Let_def
      split: prod.splits option.splits)

lemma ensureDoc_frame:
  "authorizationUrl (ensureDoc env c) = authorizationUrl c"
  "reference (ensureDoc env c) = reference c"
  "socket (ensureDoc env c) = socket c"
  "roomId (ensureDoc env c) = roomId c"
  "console (ensureDoc env c) = console c"
  "save_timer (ensureDoc env c) = save_timer c"
  "clock (ensureDoc env c) = clock c"
  "delivered (ensureDoc env c) = delivered c"
  "writes (offline (ensureDoc env c)) = writes (offline c)"
  "stored_docs (offline (ensureDoc env c)) = stored_docs (offline c)"
  by (simp_all add: ensureDoc_def readActorIdThenCreateDoc_def createDoc_def peer_notify_def Let_def
      offline_getOrCreateActor_def split: prod.splits option.splits)

lemma ensureDoc_idle: "doc c = Some d \<Longrightarrow> ensureDoc env c = c"
  by (simp add: ensureDoc_def)

lemma openSession_frame:
  "doc (openSession params c) = doc c"
  "roomId (openSession params c) = Some (room_id params)"
  "socket (openSession params c) \<noteq> None"
  by (simp_all add: openSession_def Let_def)


lemma syncOfflineCache_frame:
  "socket (snd (syncOfflineCache env c)) = socket c"
  "roomId (snd (syncOfflineCache env c)) = roomId c"
  "console (snd (syncOfflineCache env c)) = console c"
  by (simp_all add: syncOfflineCache_def peer_notify_def Let_def
      split: option.splits prod.splits sum.splits)

lemma syncOfflineCache_console_warn:
  "syncOfflineCache env (console_warn err c) =
     (fst (syncOfflineCache env c), console_warn err (snd (syncOfflineCache env c)))"
  by (simp add: syncOfflineCache_def console_warn_def peer_notify_def Let_def
      split: option.splits prod.splits sum.splits)

lemma syncOfflineCache_returns_doc:
  "syncOfflineCache env c = (Returns d, c') \<Longrightarrow> d = doc c'"
  by (auto simp: syncOfflineCache_def peer_notify_def Let_def
      split: option.splits prod.splits sum.splits if_splits)

lemma syncOfflineCache_keeps_doc:
  "doc c \<noteq> None \<Longrightarrow> doc (snd (syncOfflineCache env c)) \<noteq> None"
  by (auto simp: syncOfflineCache_def peer_notify_def Let_def
      split: option.splits prod.splits sum.splits if_splits)

section \<open>The ensure-document step\<close>

text \<open>
  C10. \<^verbatim>\<open>createDoc\<close> is idempotent. When a current document exists it returns that
  document and leaves the controller as it is, so the Sync Relay is not notified. When none
  exists it creates the default document (from the given state, or from the empty one) under
  the given actor, makes it current and announces it to the relay, once. After any call a
  current document exists, and a further call, with whatever arguments, returns it and
  changes nothing. The relay is therefore notified only if no document existed. The
  controller has one document field, so it holds at most one current document.
\<close>

theorem createDoc_idempotent:
  "(\<forall>d. doc c = Some d \<longrightarrow> createDoc env actor state c = (d, c))
   \<and> (doc c = None \<longrightarrow>
        (let fresh = automerge_from env (case state of Some s \<Rightarrow> s | None \<Rightarrow> empty_state env) actor
         in createDoc env actor state c = (fresh, c\<lparr>doc := Some fresh, peer := peer c @ [Notify fresh]\<rparr>)))
   \<and> (let (d, c') = createDoc env actor state c
      in doc c' = Some d \<and> createDoc env actor' state' c' = (d, c'))
   \<and> (peer (snd (createDoc env actor state c)) \<noteq> peer c \<longrightarrow> doc c = None)"
  by (auto simp: createDoc_def peer_notify_def Let_def split: option.splits)

theorem createDoc_idempotent_witness:
  "doc fresh_client = Some (''a1'', 5)
   \<and> createDoc demo_env ''a2'' None fresh_client = ((''a1'', 5), fresh_client)
   \<and> doc blank_client = None
   \<and> fst (createDoc demo_env ''a2'' None blank_client) = (''a2'', 0)
   \<and> peer (snd (createDoc demo_env ''a2'' None blank_client)) = [Notify (''a2'', 0)]"
proof -
  have some: "doc fresh_client = Some (''a1'', 5)"
    by (simp add: demo_defs controller_defs)
  have none: "doc blank_client = None"
    by (simp add: demo_defs controller_defs)
  have nil: "peer blank_client = []"
    by (simp add: demo_defs controller_defs)
  from createDoc_idempotent[of fresh_client demo_env "''a2''" None] some
    createDoc_idempotent[of blank_client demo_env "''a2''" None] none nil
  show ?thesis by (simp add: demo_env_def Let_def)
qed

section \<open>Going online\<close>



text \<open>
  C1, as the code has it. When authorization has resolved and loading the server's state
  throws, or merging it with the offline document throws, \<^verbatim>\<open>init\<close> catches the error, logs
  it with \<^verbatim>\<open>console.error\<close>, does not throw, and returns the plain empty object. The
  current document is not reset: after a failed load it is the document the controller held
  before (one exists, by the first step of \<^verbatim>\<open>init\<close>), and after a failed merge it is the
  document the offline cache resolved to.
\<close>

theorem init_merge_failure_returns_empty_object:
  assumes auth: "authorize env (authorizationUrl c) (reference c) = Inr params"
  shows "(automerge_load env (room_state params) None = Inl e \<longrightarrow>
            init env c = (Returns Empty_object, console_error e (openSession params (ensureDoc env c)))
            \<and> doc (snd (init env c)) = doc (ensureDoc env c))
       \<and> (automerge_load env (room_state params) None = Inr server
            \<and> syncOfflineCache env (openSession params (ensureDoc env c)) = (Returns local, c2)
            \<and> automerge_merge env local server = Inl e \<longrightarrow>
            init env c = (Returns Empty_object, console_error e c2)
            \<and> doc (snd (init env c)) = local)
       \<and> doc (ensureDoc env c) \<noteq> None"
proof -
  let ?c1 = "openSession params (ensureDoc env c)"
  have start: "init env c = mergeOnline env params ?c1"
    using auth by (simp add: init_def Let_def ensureDoc_frame)
  have a: "automerge_load env (room_state params) None = Inl e \<Longrightarrow>
      mergeOnline env params ?c1 = (Returns Empty_object, console_error e ?c1)"
    by (simp add: mergeOnline_def)
  have b: "automerge_load env (room_state params) None = Inr server \<Longrightarrow>
      syncOfflineCache env ?c1 = (Returns local, c2) \<Longrightarrow>
      automerge_merge env local server = Inl e \<Longrightarrow>
      mergeOnline env params ?c1 = (Returns Empty_object, console_error e c2)"
    by (simp add: mergeOnline_def)
  have c: "syncOfflineCache env ?c1 = (Returns local, c2) \<Longrightarrow> doc c2 = local"
    using syncOfflineCache_returns_doc by blast
  show ?thesis
    using a b c by (auto simp: start console_error_def openSession_frame doc_ensureDoc)
qed

text \<open>
  In a room whose server state does not load, \<^verbatim>\<open>init\<close> returns the empty object while
  the current document stays the one with counter 5, which is not an empty document.
\<close>

theorem init_reset_counterexample:
  "fst (init demo_env corrupt_room_client) = Returns Empty_object
   \<and> doc (snd (init demo_env corrupt_room_client)) = Some (''a1'', 5)
   \<and> automerge_from demo_env (empty_state demo_env) ''a1'' \<noteq> (''a1'', 5)"
  by (simp add: demo_defs controller_defs)

theorem init_merge_failure_returns_empty_object_witness:
  "fst (init demo_env corrupt_room_client) = Returns Empty_object
   \<and> doc (snd (init demo_env corrupt_room_client)) = doc corrupt_room_client
   \<and> console (snd (init demo_env corrupt_room_client)) = [Err (Thrown ''load'')]
   \<and> fst (init failing_merge_env cached_client) = Returns Empty_object
   \<and> doc (snd (init failing_merge_env cached_client)) = Some (''a1'', 7)
   \<and> console (snd (init failing_merge_env cached_client)) = [Err (Thrown ''merge'')]"
proof -
  let ?p2 = "\<lparr>room_id = ''r1'', room_state = ''corrupt'', session_token = ''t''\<rparr>"
  let ?p1 = "\<lparr>room_id = ''r1'', room_state = [], session_token = ''t''\<rparr>"
  let ?c1 = "openSession ?p1 (ensureDoc failing_merge_env cached_client)"
  have auth2: "authorize demo_env (authorizationUrl corrupt_room_client) (reference corrupt_room_client) = Inr ?p2"
    by (simp add: demo_defs controller_defs)
  have load2: "automerge_load demo_env (room_state ?p2) None = Inl (Thrown ''load'')"
    by (simp add: demo_defs)
  have same2: "ensureDoc demo_env corrupt_room_client = corrupt_room_client"
    by (simp add: demo_defs controller_defs)
  have log2: "console corrupt_room_client = []"
    by (simp add: demo_defs controller_defs)
  have auth1: "authorize failing_merge_env (authorizationUrl cached_client) (reference cached_client) = Inr ?p1"
    by (simp add: demo_defs controller_defs)
  have load1: "automerge_load failing_merge_env (room_state ?p1) None = Inr (''server'', 0)"
    by (simp add: demo_defs)
  have sync1: "syncOfflineCache failing_merge_env ?c1 =
      (Returns (Some (''a1'', 7)), snd (syncOfflineCache failing_merge_env ?c1))"
    by (simp add: demo_defs controller_defs)
  have log1: "console (snd (syncOfflineCache failing_merge_env ?c1)) = []"
    "doc (snd (syncOfflineCache failing_merge_env ?c1)) = Some (''a1'', 7)"
    by (simp_all add: demo_defs controller_defs)
  have merge1: "automerge_merge failing_merge_env (Some (''a1'', 7)) (''server'', 0) = Inl (Thrown ''merge'')"
    by (simp add: demo_defs)
  from init_merge_failure_returns_empty_object[OF auth2, of "Thrown ''load''"] load2 same2 log2
  have first: "fst (init demo_env corrupt_room_client) = Returns Empty_object
     \<and> doc (snd (init demo_env corrupt_room_client)) = doc corrupt_room_client
     \<and> console (snd (init demo_env corrupt_room_client)) = [Err (Thrown ''load'')]"
    by (simp add: console_error_def openSession_def Let_def)
  from init_merge_failure_returns_empty_object[OF auth1, of "Thrown ''merge''" "(''server'', 0)"
      "Some (''a1'', 7)" "snd (syncOfflineCache failing_merge_env ?c1)"] load1 sync1 merge1 log1
  have second: "fst (init failing_merge_env cached_client) = Returns Empty_object
     \<and> doc (snd (init failing_merge_env cached_client)) = Some (''a1'', 7)
     \<and> console (snd (init failing_merge_env cached_client)) = [Err (Thrown ''merge'')]"
    by (simp add: console_error_def)
  from first second show ?thesis by simp
qed

text \<open>
  C2, as the code has it. When authorization throws, \<^verbatim>\<open>init\<close> logs the error with
  \<^verbatim>\<open>console.warn\<close> and does what \<^verbatim>\<open>restore\<close> does: it ends in the state \<^verbatim>\<open>restore\<close> ends
  in, with the warning logged. It opens no socket and records no room. A current document
  exists afterwards. If the restore step returns (no snapshot is stored, or the stored one
  loads), \<^verbatim>\<open>init\<close> does not throw and returns the current document; if the stored snapshot
  does not load, the error of \<^verbatim>\<open>load\<close> leaves \<^verbatim>\<open>init\<close>, the \<^verbatim>\<open>catch\<close> block not being
  guarded.
\<close>

theorem init_authorization_failure_restores:
  assumes auth: "authorize env (authorizationUrl c) (reference c) = Inl err"
  shows "snd (init env c) = console_warn err (snd (restore env c))
       \<and> socket (snd (init env c)) = socket c
       \<and> roomId (snd (init env c)) = roomId c
       \<and> doc (snd (init env c)) \<noteq> None
       \<and> (case fst (restore env c) of
            Returns d \<Rightarrow> fst (init env c) = Returns (Doc_value (doc (snd (init env c))))
          | Throws e \<Rightarrow> fst (init env c) = Throws e)"
proof -
  let ?r = "syncOfflineCache env (ensureDoc env c)"
  have run: "init env c =
      (case fst ?r of
         Throws e \<Rightarrow> (Throws e, console_warn err (snd ?r))
       | Returns d \<Rightarrow> (Returns (Doc_value (doc (console_warn err (snd ?r)))), console_warn err (snd ?r)))"
    using auth
    by (simp add: init_def Let_def ensureDoc_frame syncOfflineCache_console_warn
        split: completion.splits)
  have keep: "doc (snd ?r) \<noteq> None"
    by (simp add: syncOfflineCache_keeps_doc doc_ensureDoc)
  show ?thesis
    using keep
    by (simp add: run restore_def console_warn_def syncOfflineCache_frame ensureDoc_frame
        split: completion.splits)
qed

text \<open>
  With the authorization endpoint down and a snapshot in the store that does not load,
  \<^verbatim>\<open>init\<close> throws.
\<close>

theorem init_authorization_failure_counterexample:
  "authorize demo_env (authorizationUrl corrupt_cache_client) (reference corrupt_cache_client)
     = Inl (Thrown ''network'')
   \<and> fst (init demo_env corrupt_cache_client) = Throws (Thrown ''load'')"
  by (simp add: demo_defs controller_defs)

theorem init_authorization_failure_restores_witness:
  "fst (restore demo_env offline_cached_client) = Returns (Some (''a1'', 7))
   \<and> fst (init demo_env offline_cached_client) = Returns (Doc_value (Some (''a1'', 7)))
   \<and> doc (snd (init demo_env offline_cached_client)) = Some (''a1'', 7)
   \<and> socket (snd (init demo_env offline_cached_client)) = None
   \<and> roomId (snd (init demo_env offline_cached_client)) = None
   \<and> console (snd (init demo_env offline_cached_client)) = [Warn (Thrown ''network'')]"
proof -
  have auth: "authorize demo_env (authorizationUrl offline_cached_client) (reference offline_cached_client)
      = Inl (Thrown ''network'')"
    by (simp add: demo_defs controller_defs)
  have rest: "fst (restore demo_env offline_cached_client) = Returns (Some (''a1'', 7))"
    "doc (snd (restore demo_env offline_cached_client)) = Some (''a1'', 7)"
    "console (snd (restore demo_env offline_cached_client)) = []"
    "socket offline_cached_client = None" "roomId offline_cached_client = None"
    "socket (snd (restore demo_env offline_cached_client)) = None"
    "roomId (snd (restore demo_env offline_cached_client)) = None"
    by (simp_all add: demo_defs controller_defs)
  from init_authorization_failure_restores[OF auth] rest show ?thesis
    by (simp add: console_warn_def)
qed

section \<open>The update handler\<close>

text \<open>
  The handler gets past its first check only on a controller that has recorded a room, and
  such a controller holds a document: \<^verbatim>\<open>init\<close> records the room after it has made sure of
  a document, and no operation removes the document again. \<open>joined_has_doc\<close> holds of a
  new controller and is kept by every operation.
\<close>

lemma joined_new: "joined_has_doc (new_RoomClient env authUrl ref store now)"
  by (simp add: joined_has_doc_def new_RoomClient_def)

lemma joined_readActorIdThenCreateDoc: "joined_has_doc (snd (readActorIdThenCreateDoc env state c))"
  by (simp add: joined_has_doc_def readActorIdThenCreateDoc_def createDoc_def peer_notify_def
      Let_def split: prod.splits option.splits)

lemma joined_restore: "joined_has_doc (snd (restore env c))"
  by (simp add: joined_has_doc_def restore_def syncOfflineCache_keeps_doc doc_ensureDoc)

lemma doc_mergeOnline: "doc c \<noteq> None \<Longrightarrow> doc (snd (mergeOnline env params c)) \<noteq> None"
  using syncOfflineCache_keeps_doc[of c env]
  by (auto simp: mergeOnline_def console_error_def peer_notify_def
      split: sum.splits prod.splits completion.splits)

lemma doc_init: "doc (snd (init env c)) \<noteq> None"
proof (cases "authorize env (authorizationUrl (ensureDoc env c)) (reference (ensureDoc env c))")
  case (Inl err)
  let ?r = "syncOfflineCache env (console_warn err (ensureDoc env c))"
  have "doc (snd ?r) \<noteq> None"
    by (simp add: syncOfflineCache_keeps_doc console_warn_def doc_ensureDoc)
  moreover have "snd (init env c) = snd ?r"
    using Inl by (cases ?r) (simp add: init_def Let_def split: completion.splits)
  ultimately show ?thesis by simp
next
  case (Inr params)
  then show ?thesis
    by (simp add: init_def Let_def doc_mergeOnline openSession_frame doc_ensureDoc)
qed

lemma joined_init: "joined_has_doc (snd (init env c))"
  by (simp add: joined_has_doc_def doc_init)

lemma joined_onUpdateDoc: "joined_has_doc c \<Longrightarrow> joined_has_doc (snd (onUpdateDoc callback c))"
  by (simp add: joined_has_doc_def onUpdateDoc_def split: option.splits)

lemma joined_socketCallback:
  "joined_has_doc c \<Longrightarrow> joined_has_doc (snd (socketCallback env callback data c))"
  by (auto simp: joined_has_doc_def socketCallback_def saveOffline_def Let_def ensureDoc_idle
      split: sum.splits option.splits)

lemma joined_publishDoc: "joined_has_doc c \<Longrightarrow> joined_has_doc (snd (publishDoc env mut c))"
  by (auto simp: joined_has_doc_def publishDoc_def createDoc_def peer_notify_def saveOffline_def
      Let_def split: option.splits)

lemma joined_elapse: "joined_has_doc c \<Longrightarrow> joined_has_doc (elapse env ms c)"
  by (simp add: joined_has_doc_def elapse_def saveOffline_now_def Let_def split: option.splits)

text \<open>
  C4. A message reaches the Sync Relay when the packet parses, the controller's room is
  defined and is the packet's room, and the packet has a message. If the relay then rejects
  the message (\<^verbatim>\<open>applyMessage\<close> returns \<^verbatim>\<open>undefined\<close>), the handler throws an error whose
  text ends with the raw payload; the current document is the one before, the pending save
  and the store are as before (nothing is scheduled for this message), and the user's callback
  is not invoked. Only the call of the relay is added to the controller's state.
\<close>

theorem rejected_message_not_applied:
  assumes packet: "json_parse env data = Inr packet"
    and room: "roomId c = Some (meta_roomId packet)" "meta_roomId packet \<noteq> []"
    and msg: "payload_msg packet = Some m"
    and current: "doc c = Some d"
    and rejected: "peer_applyMessage env (peer c) (immutable_Map env m) (Some d) = None"
  shows "socketCallback env callback data c =
           (Throws (Error (''Response from RoomService API seems corrupted, aborting. Response: '' @ data)),
            c\<lparr>peer := peer c @ [ApplyMessage (immutable_Map env m) (Some d)]\<rparr>)
         \<and> doc (snd (socketCallback env callback data c)) = doc c
         \<and> save_timer (snd (socketCallback env callback data c)) = save_timer c
         \<and> offline (snd (socketCallback env callback data c)) = offline c
         \<and> delivered (snd (socketCallback env callback data c)) = delivered c"
  using assms by (simp add: socketCallback_def truthy_def ensureDoc_idle Let_def)

theorem rejected_message_not_applied_witness:
  "fst (socketCallback demo_env 7 ''r1#'' online_client) =
     Throws (Error ''Response from RoomService API seems corrupted, aborting. Response: r1#'')
   \<and> doc (snd (socketCallback demo_env 7 ''r1#'' online_client)) = Some (''a1'', 5)
   \<and> save_timer (snd (socketCallback demo_env 7 ''r1#'' online_client)) = None
   \<and> delivered (snd (socketCallback demo_env 7 ''r1#'' online_client)) = []"
proof -
  let ?packet = "\<lparr>meta_roomId = ''r1'', payload_msg = Some (0::nat)\<rparr>"
  have packet: "json_parse demo_env ''r1#'' = Inr ?packet"
    by (simp add: demo_defs)
  have room: "roomId online_client = Some (meta_roomId ?packet)" "meta_roomId ?packet \<noteq> []"
    by (simp_all add: demo_defs controller_defs)
  have msg: "payload_msg ?packet = Some 0"
    by simp
  have current: "doc online_client = Some (''a1'', 5)"
    by (simp add: demo_defs controller_defs)
  have rejected: "peer_applyMessage demo_env (peer online_client) (immutable_Map demo_env 0) (Some (''a1'', 5)) = None"
    by (simp add: demo_defs)
  have idle: "save_timer online_client = None" "delivered online_client = []"
    by (simp_all add: demo_defs controller_defs)
  from rejected_message_not_applied[OF packet room msg current rejected, of 7] current idle
  show ?thesis by simp
qed

text \<open>
  C5. On a controller that has recorded a room identity (a non-empty string, which is what
  the handler's own check takes for a defined room), a packet for another room makes the
  handler return without throwing, and the controller is exactly as before: the same current
  document, no save scheduled, the user's callback not invoked.
\<close>

theorem other_room_ignored:
  assumes packet: "json_parse env data = Inr packet"
    and room: "roomId c = Some r" "r \<noteq> []"
    and other: "meta_roomId packet \<noteq> r"
  shows "socketCallback env callback data c = (Returns Ignored, c)"
  using assms by (simp add: socketCallback_def truthy_def)

theorem other_room_ignored_witness:
  "socketCallback demo_env 7 ''r2#xx'' online_client = (Returns Ignored, online_client)"
proof -
  let ?packet = "\<lparr>meta_roomId = ''r2'', payload_msg = Some (2::nat)\<rparr>"
  have packet: "json_parse demo_env ''r2#xx'' = Inr ?packet"
    by (simp add: demo_defs)
  have room: "roomId online_client = Some ''r1''" "''r1'' \<noteq> []"
    by (simp_all add: demo_defs controller_defs)
  have other: "meta_roomId ?packet \<noteq> ''r1''"
    by simp
  from other_room_ignored[OF packet room other] show ?thesis .
qed

text \<open>
  C6. A packet for the controller's own room that has no \<^verbatim>\<open>msg\<close> makes the handler throw,
  and it throws before it touches anything: the controller is exactly as before, so the
  current document is unchanged, nothing is persisted or scheduled, and the user's callback
  is not invoked.
\<close>

theorem missing_msg_throws_first:
  assumes packet: "json_parse env data = Inr packet"
    and room: "roomId c = Some (meta_roomId packet)"
    and nomsg: "payload_msg packet = None"
  shows "throws (fst (socketCallback env callback data c))
         \<and> snd (socketCallback env callback data c) = c"
  using assms by (simp add: socketCallback_def truthy_def)

theorem missing_msg_throws_first_witness:
  "throws (fst (socketCallback demo_env 7 ''r1'' online_client))
   \<and> snd (socketCallback demo_env 7 ''r1'' online_client) = online_client"
proof -
  let ?packet = "\<lparr>meta_roomId = ''r1'', payload_msg = (None :: nat option)\<rparr>"
  have packet: "json_parse demo_env ''r1'' = Inr ?packet"
    by (simp add: demo_defs)
  have room: "roomId online_client = Some (meta_roomId ?packet)"
    by (simp add: demo_defs controller_defs)
  have nomsg: "payload_msg ?packet = None"
    by simp
  from missing_msg_throws_first[OF packet room nomsg] show ?thesis .
qed

section \<open>Registering the update callback\<close>

text \<open>
  Without a socket the first registration is stored, and a second one fails the invariant
  at once, leaving the controller as the first one left it.
\<close>

lemma onUpdateDoc_offline_twice:
  assumes "socket c = None" "onUpdateSocketCallback c = None"
  shows "fst (onUpdateDoc cb1 c) = Returns ()"
    and "violates_invariant (fst (onUpdateDoc cb2 (snd (onUpdateDoc cb1 c))))"
    and "snd (onUpdateDoc cb2 (snd (onUpdateDoc cb1 c))) = snd (onUpdateDoc cb1 c)"
  using assms by (simp_all add: onUpdateDoc_def)

text \<open>
  C7 fails once a socket exists. \<^verbatim>\<open>onUpdateDoc\<close> then attaches the handler to the socket and
  returns without storing it in \<^verbatim>\<open>_onUpdateSocketCallback\<close>, the field its invariant tests.
  On a controller that is online, two registrations in a row both return, and the socket
  ends with both handlers on \<^verbatim>\<open>sync_room_state\<close>.
\<close>

theorem onUpdateDoc_online_twice_accepted:
  "socket online_client \<noteq> None
   \<and> fst (onUpdateDoc 1 online_client) = Returns ()
   \<and> fst (onUpdateDoc 2 (snd (onUpdateDoc 1 online_client))) = Returns ()
   \<and> map_option listeners (socket (snd (onUpdateDoc 2 (snd (onUpdateDoc 1 online_client))))) =
       Some [(''error'', Log_socket_error), (''connect'', Notify_and_sync),
             (''disconnect'', Warn_forced_disconnect),
             (''sync_room_state'', Socket_callback 1), (''sync_room_state'', Socket_callback 2)]"
  by (simp add: demo_defs controller_defs)

section \<open>Publishing when the change returns the sentinel\<close>




section \<open>One write for each burst of replacements\<close>

lemma publishDoc_schedules:
  "publishDoc env callback c = (Returns d, c') \<Longrightarrow>
     doc c' = Some d \<and> save_timer c' = Some (clock c' + 120, ''default'', d)
     \<and> writes (offline c') = writes (offline c) \<and> reference c' = reference c"
  by (auto simp: publishDoc_def createDoc_def peer_notify_def saveOffline_def Let_def
      split: option.splits if_splits)

lemma socketCallback_schedules:
  "socketCallback env callback data c = (Returns Applied, c') \<Longrightarrow>
     \<exists>d. doc c' = Some d \<and> save_timer c' = Some (clock c' + 120, ''default'', d)
     \<and> writes (offline c') = writes (offline c) \<and> reference c' = reference c"
  by (auto simp: socketCallback_def saveOffline_def ensureDoc_frame Let_def
      split: sum.splits option.splits if_splits)

lemma replaceDoc_schedules:
  assumes "replaceDoc env r c = Some c'"
  shows "\<exists>d. doc c' = Some d \<and> save_timer c' = Some (clock c' + 120, ''default'', d)
     \<and> writes (offline c') = writes (offline c) \<and> reference c' = reference c"
proof (cases r)
  case (Local callback)
  with assms obtain d where "publishDoc env callback c = (Returns d, c')"
    by (auto simp: replaceDoc_def split: prod.splits completion.splits)
  from publishDoc_schedules[OF this] show ?thesis by simp
next
  case (Remote callback data)
  with assms have "socketCallback env callback data c = (Returns Applied, c')"
    by (auto simp: replaceDoc_def split: prod.splits completion.splits handled.splits)
  from socketCallback_schedules[OF this] show ?thesis by simp
qed

lemma elapse_before_due:
  "save_timer c = Some (clock c + 120, name, d) \<Longrightarrow> wait < 120 \<Longrightarrow>
     elapse env wait c = c\<lparr>clock := clock c + wait\<rparr>"
  by (simp add: elapse_def Let_def)

lemma elapse_when_due:
  "save_timer c = Some (clock c + 120, name, d) \<Longrightarrow> 120 \<le> ms \<Longrightarrow>
     writes (offline (elapse env ms c)) = writes (offline c) @ [(reference c, name, automerge_save env d)]
     \<and> save_timer (elapse env ms c) = None"
  by (simp add: elapse_def saveOffline_now_def offline_setDoc_def Let_def)

lemma elapse_idle:
  "save_timer c = None \<Longrightarrow> writes (offline (elapse env ms c)) = writes (offline c)"
  by (simp add: elapse_def Let_def)

lemma replacements_coalesce:
  "replacements env rs c0 = Some c' \<Longrightarrow> \<forall>(wait, r) \<in> set rs. wait < 120 \<Longrightarrow>
     \<exists>d. doc c0 = Some d \<and> save_timer c0 = Some (clock c0 + 120, ''default'', d) \<Longrightarrow>
     writes (offline c') = writes (offline c0) \<and> reference c' = reference c0
     \<and> (\<exists>d. doc c' = Some d \<and> save_timer c' = Some (clock c' + 120, ''default'', d))"
proof (induction rs arbitrary: c0)
  case Nil
  then show ?case by simp
next
  case (Cons x rs)
  obtain wait r where x: "x = (wait, r)" by (cases x)
  from Cons.prems(2) x have short: "wait < 120" and rest: "\<forall>(wait, r) \<in> set rs. wait < 120"
    by auto
  from Cons.prems(3) obtain d where
    pend: "save_timer c0 = Some (clock c0 + 120, ''default'', d)" by blast
  have quiet: "elapse env wait c0 = c0\<lparr>clock := clock c0 + wait\<rparr>"
    using pend short by (rule elapse_before_due)
  from Cons.prems(1) x obtain c1 where
    step: "replaceDoc env r (elapse env wait c0) = Some c1" and
    run: "replacements env rs c1 = Some c'"
    by (auto split: option.splits)
  from replaceDoc_schedules[OF step] have
    inv: "\<exists>d. doc c1 = Some d \<and> save_timer c1 = Some (clock c1 + 120, ''default'', d)" and
    same: "writes (offline c1) = writes (offline c0)" "reference c1 = reference c0"
    by (auto simp: quiet)
  from Cons.IH[OF run rest inv] same show ?case by simp
qed

text \<open>
  C9. Take a replacement that schedules a save, followed by any number of further
  replacements, each less than 120 ms after the one before, and then let 120 ms or more pass.
  No write reaches the Identity Store while the replacements go on; when the time has passed
  the store has received exactly one write more than before the first replacement: under the
  controller's reference and the name \<^verbatim>\<open>default\<close>, the serialization of the document of the
  last replacement, which is the current document. No further write follows, however much
  more time passes.
\<close>

theorem debounced_single_write:
  assumes first: "replaceDoc env r c = Some c0"
    and window: "\<forall>(wait, r) \<in> set rs. wait < 120"
    and run: "replacements env rs c0 = Some c'"
    and later: "120 \<le> ms"
  shows "\<exists>d. doc c' = Some d
           \<and> writes (offline c') = writes (offline c)
           \<and> writes (offline (elapse env ms c')) =
               writes (offline c) @ [(reference c, ''default'', automerge_save env d)]
           \<and> writes (offline (elapse env ms' (elapse env ms c'))) =
               writes (offline c) @ [(reference c, ''default'', automerge_save env d)]"
proof -
  from replaceDoc_schedules[OF first] have
    inv: "\<exists>d. doc c0 = Some d \<and> save_timer c0 = Some (clock c0 + 120, ''default'', d)" and
    same: "writes (offline c0) = writes (offline c)" "reference c0 = reference c"
    by auto
  from replacements_coalesce[OF run window inv] obtain d where
    d: "doc c' = Some d" "save_timer c' = Some (clock c' + 120, ''default'', d)" and
    keep: "writes (offline c') = writes (offline c0)" "reference c' = reference c0"
    by auto
  from elapse_when_due[OF d(2) later, of env] have
    fire: "writes (offline (elapse env ms c')) =
             writes (offline c') @ [(reference c', ''default'', automerge_save env d)]"
      "save_timer (elapse env ms c') = None"
    by auto
  from elapse_idle[OF fire(2), of env ms'] fire(1) d(1) keep same show ?thesis by simp
qed

theorem debounced_single_write_witness:
  "writes (offline online_client) = []
   \<and> writes (offline (elapse demo_env 120
        (the (replacements demo_env demo_burst (the (replaceDoc demo_env (Local 1) online_client))))))
      = [(''room1'', ''default'', ''xxxxxxxxx'')]"
proof -
  let ?c0 = "the (replaceDoc demo_env (Local 1) online_client)"
  let ?c' = "the (replacements demo_env demo_burst ?c0)"
  have first: "replaceDoc demo_env (Local 1) online_client = Some ?c0"
    by (simp add: demo_defs controller_defs)
  have window: "\<forall>(wait, r) \<in> set demo_burst. wait < 120"
    by (simp add: demo_burst_def)
  have run: "replacements demo_env demo_burst ?c0 = Some ?c'"
    by (simp add: demo_defs controller_defs)
  have later: "(120::nat) \<le> 120"
    by simp
  have start: "writes (offline online_client) = []" "reference online_client = ''room1''"
    by (simp_all add: demo_defs controller_defs)
  have last: "doc ?c' = Some (''a1'', 9)"
    by (simp add: demo_defs controller_defs)
  have bytes: "automerge_save demo_env (''a1'', 9) = ''xxxxxxxxx''"
    by (simp add: demo_env_def numeral_eq_Suc)
  from debounced_single_write[OF first window run later, of 0] start last bytes
  show ?thesis by simp
qed

end
